theory Spec2Isabelle
  imports Complex_Main "HOL-Library.Signed_Division"
begin

section \<open>Restoring a simulation state from an ECLIPSE restart file\<close>

text \<open>
  A shallow embedding of \<^verbatim>\<open>opm/output/eclipse/EclipseReader.cpp\<close>: the two extractors
  \<^verbatim>\<open>restoreSOLUTION\<close> and \<^verbatim>\<open>restoreOPM_XWEL\<close> of the anonymous namespace and the entry
  point \<^verbatim>\<open>init_from_restart_file\<close>. A call either returns a value (\<open>Inr\<close>) or ends in
  one of the outcomes of type \<open>error\<close> (\<open>Inl\<close>).
\<close>

subsection \<open>Outcomes other than a returned value\<close>

datatype error =
    runtime_error string
      \<comment> \<open>a \<^verbatim>\<open>std::runtime_error\<close> thrown by this file, with its message\<close>
  | contract_violation
      \<comment> \<open>a collaborator is called outside its contract (a record that the store does not
          hold is fetched, a field that the Solution does not hold is read): nothing is
          thrown by this file\<close>
  | undefined_behaviour
      \<comment> \<open>a pointer range that leaves the record's buffer, or a signed overflow of \<^verbatim>\<open>int\<close>\<close>

definition bind_result :: "error + 'a \<Rightarrow> ('a \<Rightarrow> error + 'b) \<Rightarrow> error + 'b" where
  "bind_result m f = (case m of Inl e \<Rightarrow> Inl e | Inr x \<Rightarrow> f x)"

subsection \<open>The record store (libecl's \<^verbatim>\<open>ecl_file\<close>), as far as this file uses it\<close>

text \<open>
  A record (\<^verbatim>\<open>ecl_kw_type\<close>) is its sequence of values; \<^verbatim>\<open>ecl_kw_get_size\<close> is the number
  of them. A file has an active view, which maps a name to the first record of that name
  (this file only ever asks for occurrence 0), and the restart blocks of a unified file
  by report step.
\<close>

type_synonym ecl_kw_type = "real list"

record ecl_file_type =
  active_view :: "string \<rightharpoonup> ecl_kw_type"
  rst_blocks :: "int \<rightharpoonup> (string \<rightharpoonup> ecl_kw_type)"

definition ecl_file_has_kw :: "ecl_file_type \<Rightarrow> string \<Rightarrow> bool" where
  "ecl_file_has_kw file key = (active_view file key \<noteq> None)"

definition ecl_file_iget_named_kw :: "ecl_file_type \<Rightarrow> string \<Rightarrow> error + ecl_kw_type" where
  "ecl_file_iget_named_kw file nm =
     (case active_view file nm of
        None \<Rightarrow> Inl contract_violation
      | Some kw \<Rightarrow> Inr kw)"

definition ecl_kw_get_size :: "ecl_kw_type \<Rightarrow> int" where
  "ecl_kw_get_size kw = int (length kw)"

definition ecl_file_select_rstblock_report_step ::
  "ecl_file_type \<Rightarrow> int \<Rightarrow> bool \<times> ecl_file_type" where
  "ecl_file_select_rstblock_report_step file step =
     (case rst_blocks file step of
        None \<Rightarrow> (False, file)
      | Some view \<Rightarrow> (True, file\<lparr>active_view := view\<rparr>))"

subsection \<open>Units\<close>

text \<open>
  The two conversion tables are named here; their factors live in the parser library and
  enter through the parameter \<open>to_si\<close> of the functions below. Only the two dimensions
  that this file converts are listed.
\<close>

datatype conversion_table = metric2si | field2si

datatype dim = dim_pressure | dim_temperature

text \<open>
  Modelled from the spec: the type of the deck's unit system is declared in the parser
  library; it is a closed enumeration with METRIC, FIELD and at least one further member
  (LAB).
\<close>

datatype UnitType = UNIT_TYPE_METRIC | UNIT_TYPE_FIELD | UNIT_TYPE_LAB

subsection \<open>The results: Solution and Wells\<close>

datatype solution_key = PRESSURE | TEMP | SWAT | SGAS | RS | RV

text \<open>
  Modelled from the spec: \<^verbatim>\<open>data::Solution\<close> is declared in \<^verbatim>\<open>opm/output/Cells.hpp\<close>; it is
  a mapping from field kinds to sequences of doubles. \<open>insert_field\<close> stores a sequence
  under a kind, \<open>field_at\<close> is the access \<^verbatim>\<open>sol[k]\<close> to a field that has to be there.
\<close>

type_synonym Solution = "solution_key \<rightharpoonup> real list"

definition insert_field :: "Solution \<Rightarrow> solution_key \<Rightarrow> real list \<Rightarrow> Solution" where
  "insert_field sol k v = sol(k \<mapsto> v)"

definition field_at :: "Solution \<Rightarrow> solution_key \<Rightarrow> error + real list" where
  "field_at sol k = (case sol k of None \<Rightarrow> Inl contract_violation | Some v \<Rightarrow> Inr v)"

text \<open>
  \<^verbatim>\<open>std::transform( sol[k].begin(), sol[k].end(), sol[k].begin(), f )\<close>: the field is
  overwritten by its image under \<open>f\<close>.
\<close>

definition transform_field ::
  "Solution \<Rightarrow> solution_key \<Rightarrow> (real \<Rightarrow> real) \<Rightarrow> error + Solution" where
  "transform_field sol k f =
     bind_result (field_at sol k) (\<lambda>v. Inr (sol(k \<mapsto> map f v)))"

text \<open>
  Modelled from the spec: \<^verbatim>\<open>data::Wells\<close> is declared in \<^verbatim>\<open>opm/output/Wells.hpp\<close>; the
  aggregate is initialised with an empty map of named wells and the five sequences, in
  the order of the fields below.
\<close>

record Wells =
  wells :: "string \<rightharpoonup> unit"
  bhp :: "real list"
  perf_pressure :: "real list"
  perf_rate :: "real list"
  temperature :: "real list"
  well_rate :: "real list"

subsection \<open>\<^verbatim>\<open>restoreSOLUTION\<close>\<close>

text \<open>The local struct \<^verbatim>\<open>keyword\<close> and its constructor, which fetches the record.\<close>

record keyword =
  kw_size :: int
  kw_data :: "real list"
  kw_name :: string

definition mk_keyword :: "ecl_file_type \<Rightarrow> string \<Rightarrow> error + keyword" where
  "mk_keyword file nm =
     bind_result (ecl_file_iget_named_kw file nm)
       (\<lambda>kw. Inr \<lparr>kw_size = ecl_kw_get_size kw, kw_data = kw, kw_name = nm\<rparr>)"

text \<open>The first loop: the first key that the file does not have ends the call.\<close>

fun check_has_kw :: "ecl_file_type \<Rightarrow> string list \<Rightarrow> error + unit" where
  "check_has_kw file [] = Inr ()"
| "check_has_kw file (key # keys) =
     (if \<not> ecl_file_has_kw file key
      then Inl (runtime_error (''Read of restart file: '' @ ''File does not contain ''
                               @ key @ '' data''))
      else check_has_kw file keys)"

text \<open>The second loop: the first record whose size is not the cell count ends the call.\<close>

fun check_size :: "int \<Rightarrow> keyword list \<Rightarrow> error + unit" where
  "check_size numcells [] = Inr ()"
| "check_size numcells (kw # kws) =
     (if kw_size kw \<noteq> numcells
      then Inl (runtime_error (''Restart file: Could not restore '' @ kw_name kw
                               @ '', mismatched number of cells''))
      else check_size numcells kws)"

text \<open>The optional keywords: copied when the file has them, with no check of the size.\<close>

definition insert_optional ::
  "ecl_file_type \<Rightarrow> string \<Rightarrow> solution_key \<Rightarrow> Solution \<Rightarrow> error + Solution" where
  "insert_optional file nm k sol =
     (if ecl_file_has_kw file nm
      then bind_result (mk_keyword file nm) (\<lambda>kw. Inr (insert_field sol k (kw_data kw)))
      else Inr sol)"

definition restoreSOLUTION ::
  "(conversion_table \<Rightarrow> dim \<Rightarrow> real \<Rightarrow> real) \<Rightarrow> ecl_file_type \<Rightarrow> int \<Rightarrow> conversion_table
     \<Rightarrow> error + Solution" where
  "restoreSOLUTION to_si file numcells conversion_table =
     bind_result (check_has_kw file [''PRESSURE'', ''TEMP'', ''SWAT'', ''SGAS'']) (\<lambda>_.
     bind_result (mk_keyword file ''PRESSURE'') (\<lambda>pres.
     bind_result (mk_keyword file ''TEMP'') (\<lambda>temp.
     bind_result (mk_keyword file ''SWAT'') (\<lambda>swat.
     bind_result (mk_keyword file ''SGAS'') (\<lambda>sgas.
     bind_result (check_size numcells [pres, temp, swat, sgas]) (\<lambda>_.
       let sol = Map.empty;
           sol = insert_field sol PRESSURE (kw_data pres);
           sol = insert_field sol TEMP (kw_data temp);
           sol = insert_field sol SWAT (kw_data swat);
           sol = insert_field sol SGAS (kw_data sgas);
           apply_pressure = (\<lambda>x. to_si conversion_table dim_pressure x);
           apply_temperature = (\<lambda>x. to_si conversion_table dim_temperature x)
       in
     bind_result (transform_field sol PRESSURE apply_pressure) (\<lambda>sol.
     bind_result (transform_field sol TEMP apply_temperature) (\<lambda>sol.
     bind_result (insert_optional file ''RS'' RS sol) (\<lambda>sol.
     bind_result (insert_optional file ''RV'' RV sol) (\<lambda>sol.
       Inr sol))))))))))"

subsection \<open>\<^verbatim>\<open>restoreOPM_XWEL\<close>\<close>

text \<open>
  Pointers into the record's buffer are offsets from its first element. A vector built
  from the pointer range \<open>[b, e)\<close> reads the elements at the offsets \<open>b, \<dots>, e - 1\<close>; the
  range is valid when \<open>0 \<le> b \<le> e \<le> size\<close>.
\<close>

definition vector_of_range :: "real list \<Rightarrow> int \<Rightarrow> int \<Rightarrow> error + real list" where
  "vector_of_range buf b e =
     (if 0 \<le> b \<and> b \<le> e \<and> e \<le> int (length buf)
      then Inr (take (nat (e - b)) (drop (nat b) buf))
      else Inl undefined_behaviour)"

text \<open>The product of two \<^verbatim>\<open>int\<close>s (32 bits, signed).\<close>

definition int_mult :: "int \<Rightarrow> int \<Rightarrow> error + int" where
  "int_mult a b =
     (if - (2 ^ 31) \<le> a * b \<and> a * b < 2 ^ 31 then Inr (a * b) else Inl undefined_behaviour)"

definition restoreOPM_XWEL :: "ecl_file_type \<Rightarrow> int \<Rightarrow> int \<Rightarrow> error + Wells" where
  "restoreOPM_XWEL file num_wells num_phases =
     bind_result (ecl_file_iget_named_kw file ''OPM_XWEL'') (\<lambda>xwel.
       let xwel_data = 0;
           xwel_end = xwel_data + ecl_kw_get_size xwel;
           bhp_begin = xwel_data;
           bhp_end = bhp_begin + num_wells;
           temp_begin = bhp_end;
           temp_end = temp_begin + num_wells;
           wellrate_begin = temp_end
       in
     bind_result (int_mult num_wells num_phases) (\<lambda>wp.
       let wellrate_end = wellrate_begin + wp;
           remaining = xwel_end - wellrate_end;
           perf_elems = remaining sdiv 2;
           perfpres_begin = wellrate_end;
           perfpres_end = perfpres_begin + perf_elems;
           perfrate_begin = perfpres_end;
           perfrate_end = perfrate_begin + perf_elems
       in
     bind_result (vector_of_range xwel bhp_begin bhp_end) (\<lambda>v_bhp.
     bind_result (vector_of_range xwel perfpres_begin perfpres_end) (\<lambda>v_perfpres.
     bind_result (vector_of_range xwel perfrate_begin perfrate_end) (\<lambda>v_perfrate.
     bind_result (vector_of_range xwel temp_begin temp_end) (\<lambda>v_temp.
     bind_result (vector_of_range xwel wellrate_begin wellrate_end) (\<lambda>v_wellrate.
       Inr \<lparr>wells = Map.empty, bhp = v_bhp, perf_pressure = v_perfpres,
            perf_rate = v_perfrate, temperature = v_temp,
            well_rate = v_wellrate\<rparr>)))))))"

subsection \<open>\<^verbatim>\<open>init_from_restart_file\<close>\<close>

text \<open>What the entry point reads from the \<^verbatim>\<open>EclipseState\<close>.\<close>

record EclipseState =
  getRestartStep :: int
  getRestartRootName :: string
  getRestartFileName :: "string \<Rightarrow> int \<Rightarrow> bool \<Rightarrow> string"
  getUNIFIN :: bool
  numWells :: "int \<Rightarrow> int"
  getNumPhases :: int
  getDeckUnitSystemType :: UnitType

text \<open>\<^verbatim>\<open>std::to_string\<close> of an \<^verbatim>\<open>int\<close>.\<close>

fun digits_of :: "nat \<Rightarrow> nat \<Rightarrow> string" where
  "digits_of 0 n = []"
| "digits_of (Suc fuel) n =
     (if n < 10 then [char_of (48 + n)]
      else digits_of fuel (n div 10) @ [char_of (48 + n mod 10)])"

definition to_string :: "int \<Rightarrow> string" where
  "to_string i =
     (if i < 0 then CHR ''-'' # digits_of (Suc (nat (- i))) (nat (- i))
      else digits_of (Suc (nat i)) (nat i))"

definition init_from_restart_file ::
  "(conversion_table \<Rightarrow> dim \<Rightarrow> real \<Rightarrow> real) \<Rightarrow> (string \<rightharpoonup> ecl_file_type) \<Rightarrow> EclipseState
     \<Rightarrow> int \<Rightarrow> error + (Solution \<times> Wells)" where
  "init_from_restart_file to_si ecl_file_open es numcells =
     (let restart_step = getRestartStep es;
          restart_file_root = getRestartRootName es;
          output = False;
          filename = getRestartFileName es restart_file_root restart_step output;
          unified = getUNIFIN es;
          num_wells = numWells es restart_step;
          num_phases = getNumPhases es
      in
      case ecl_file_open filename of
        None \<Rightarrow> Inl (runtime_error (''Restart file '' @ filename @ '' not found!''))
      | Some opened \<Rightarrow>
          let (selected, file) =
                (if unified then ecl_file_select_rstblock_report_step opened restart_step
                 else (True, opened))
          in
          if unified \<and> \<not> selected
          then Inl (runtime_error (''Restart file '' @ filename
                                   @ '' does not contain data for report step ''
                                   @ to_string restart_step @ ''!''))
          else
            let conv_table =
                  (if getDeckUnitSystemType es = UNIT_TYPE_METRIC then metric2si
                   else field2si)
            in
            bind_result (restoreSOLUTION to_si file numcells conv_table) (\<lambda>sol.
            bind_result (restoreOPM_XWEL file num_wells num_phases) (\<lambda>wells.
              Inr (sol, wells))))"

subsection \<open>Example inputs\<close>

text \<open>
  A converter with the usual factors (bar and psi to Pascal, Celsius and Fahrenheit to
  Kelvin), files built from a list of named records, and an \<^verbatim>\<open>EclipseState\<close> that
  restarts from report step 1 of the unified file \<^verbatim>\<open>CASE.UNRST\<close>.
\<close>

definition example_to_si :: "conversion_table \<Rightarrow> dim \<Rightarrow> real \<Rightarrow> real" where
  "example_to_si tbl d x =
     (case (tbl, d) of
        (metric2si, dim_pressure) \<Rightarrow> x * 100000
      | (metric2si, dim_temperature) \<Rightarrow> x + 27315 / 100
      | (field2si, dim_pressure) \<Rightarrow> x * 689476 / 100
      | (field2si, dim_temperature) \<Rightarrow> (x + 45967 / 100) * 5 / 9)"

definition file_of :: "(string \<times> real list) list \<Rightarrow> ecl_file_type" where
  "file_of kws = \<lparr>active_view = map_of kws, rst_blocks = Map.empty\<rparr>"

definition unified_file_of :: "int \<Rightarrow> (string \<times> real list) list \<Rightarrow> ecl_file_type" where
  "unified_file_of step kws = \<lparr>active_view = Map.empty, rst_blocks = [step \<mapsto> map_of kws]\<rparr>"

definition example_state :: "UnitType \<Rightarrow> int \<Rightarrow> int \<Rightarrow> EclipseState" where
  "example_state ty W P =
     \<lparr>getRestartStep = 1, getRestartRootName = ''CASE'',
      getRestartFileName = (\<lambda>root step output. root @ ''.UNRST''),
      getUNIFIN = True, numWells = (\<lambda>step. W), getNumPhases = P,
      getDeckUnitSystemType = ty\<rparr>"

definition example_open :: "ecl_file_type \<Rightarrow> (string \<rightharpoonup> ecl_file_type)" where
  "example_open file = [''CASE.UNRST'' \<mapsto> file]"


definition example_cells :: "(string \<times> real list) list" where
  "example_cells =
     [(''PRESSURE'', [1, 2]), (''TEMP'', [50, 60]), (''SWAT'', [1 / 4, 1 / 2]),
      (''SGAS'', [1 / 8, 0])]"

section \<open>Auxiliary facts\<close>

lemma restoreSOLUTION_unfold:
  "restoreSOLUTION to_si file n tbl =
     (case active_view file ''PRESSURE'' of
        None \<Rightarrow> Inl (runtime_error ''Read of restart file: File does not contain PRESSURE data'')
      | Some p \<Rightarrow>
     (case active_view file ''TEMP'' of
        None \<Rightarrow> Inl (runtime_error ''Read of restart file: File does not contain TEMP data'')
      | Some t \<Rightarrow>
     (case active_view file ''SWAT'' of
        None \<Rightarrow> Inl (runtime_error ''Read of restart file: File does not contain SWAT data'')
      | Some w \<Rightarrow>
     (case active_view file ''SGAS'' of
        None \<Rightarrow> Inl (runtime_error ''Read of restart file: File does not contain SGAS data'')
      | Some g \<Rightarrow>
        if int (length p) \<noteq> n
        then Inl (runtime_error ''Restart file: Could not restore PRESSURE, mismatched number of cells'')
        else if int (length t) \<noteq> n
        then Inl (runtime_error ''Restart file: Could not restore TEMP, mismatched number of cells'')
        else if int (length w) \<noteq> n
        then Inl (runtime_error ''Restart file: Could not restore SWAT, mismatched number of cells'')
        else if int (length g) \<noteq> n
        then Inl (runtime_error ''Restart file: Could not restore SGAS, mismatched number of cells'')
        else Inr (\<lambda>k. case k of
                    PRESSURE \<Rightarrow> Some (map (to_si tbl dim_pressure) p)
                  | TEMP \<Rightarrow> Some (map (to_si tbl dim_temperature) t)
                  | SWAT \<Rightarrow> Some w
                  | SGAS \<Rightarrow> Some g
                  | RS \<Rightarrow> active_view file ''RS''
                  | RV \<Rightarrow> active_view file ''RV'')))))"
  by (auto simp: restoreSOLUTION_def bind_result_def mk_keyword_def ecl_file_iget_named_kw_def
      ecl_file_has_kw_def ecl_kw_get_size_def insert_field_def transform_field_def field_at_def
      insert_optional_def Let_def fun_eq_iff
      split: option.splits solution_key.splits)

lemma sdiv_nonneg_2: "0 \<le> (a::int) \<Longrightarrow> a sdiv 2 = a div 2"
  by (simp add: signed_divide_int_def sgn_if)

lemma int_mult_ok:
  "0 \<le> a \<Longrightarrow> 0 \<le> b \<Longrightarrow> a * b < 2 ^ 31 \<Longrightarrow> int_mult a b = Inr (a * b)"
proof -
  assume "0 \<le> a" "0 \<le> b" and lt: "a * b < 2 ^ 31"
  then have "0 \<le> a * b" by simp
  moreover have "- (2 ^ 31) \<le> (0::int)" by simp
  ultimately have "- (2 ^ 31) \<le> a * b" by (rule order_trans [rotated])
  with lt show ?thesis by (simp add: int_mult_def)
qed

lemma restoreOPM_XWEL_success:
  assumes kw: "active_view file ''OPM_XWEL'' = Some buf"
    and W: "0 \<le> W" and P: "0 \<le> P"
    and len: "2 * W + W * P \<le> int (length buf)"
    and sz: "int (length buf) < 2 ^ 31"
  shows "restoreOPM_XWEL file W P =
           Inr \<lparr>wells = Map.empty,
                bhp = take (nat W) buf,
                perf_pressure =
                  take (nat ((int (length buf) - (2 * W + W * P)) div 2))
                    (drop (nat (2 * W + W * P)) buf),
                perf_rate =
                  take (nat ((int (length buf) - (2 * W + W * P)) div 2))
                    (drop (nat (2 * W + W * P + (int (length buf) - (2 * W + W * P)) div 2)) buf),
                temperature = take (nat W) (drop (nat W) buf),
                well_rate = take (nat (W * P)) (drop (nat (2 * W)) buf)\<rparr>"
proof -
  have wp: "0 \<le> W * P" using W P by simp
  have m: "int_mult W P = Inr (W * P)"
    using W P wp len sz by (intro int_mult_ok) auto
  define R where "R = int (length buf) - (2 * W + W * P)"
  have R0: "0 \<le> R" using len by (simp add: R_def)
  have sd: "R sdiv 2 = R div 2" using R0 by (rule sdiv_nonneg_2)
  have k0: "0 \<le> R div 2" using R0 by simp
  have k2: "2 * (R div 2) \<le> R" by simp
  have r1: "vector_of_range buf 0 (0 + W) = Inr (take (nat W) buf)"
    using W wp len by (simp add: vector_of_range_def)
  have r2: "vector_of_range buf (0 + W) (0 + W + W) = Inr (take (nat W) (drop (nat W) buf))"
    using W wp len by (simp add: vector_of_range_def)
  have r3: "vector_of_range buf (0 + W + W) (0 + W + W + W * P)
              = Inr (take (nat (W * P)) (drop (nat (2 * W)) buf))"
    using W wp len by (simp add: vector_of_range_def)
  have r4: "vector_of_range buf (0 + W + W + W * P) (0 + W + W + W * P + R div 2)
              = Inr (take (nat (R div 2)) (drop (nat (2 * W + W * P)) buf))"
    using W wp len k0 k2 by (simp add: vector_of_range_def R_def)
  have r5: "vector_of_range buf (0 + W + W + W * P + R div 2)
              (0 + W + W + W * P + R div 2 + R div 2)
              = Inr (take (nat (R div 2)) (drop (nat (2 * W + W * P + R div 2)) buf))"
    using W wp len k0 k2 by (simp add: vector_of_range_def R_def add.commute add.left_commute)
  have Rx: "0 + int (length buf) - (0 + W + W + W * P) = R" by (simp add: R_def)
  show ?thesis
    unfolding restoreOPM_XWEL_def ecl_file_iget_named_kw_def ecl_kw_get_size_def Let_def kw
      bind_result_def m option.case sum.case Rx sd r1 r2 r3 r4 r5
    by (simp add: R_def)
qed

lemma restoreOPM_XWEL_short:
  assumes kw: "active_view file ''OPM_XWEL'' = Some buf"
    and W: "0 \<le> W" and P: "0 \<le> P"
    and len: "int (length buf) < 2 * W + W * P"
  shows "restoreOPM_XWEL file W P = Inl undefined_behaviour"
proof (cases "int_mult W P")
  case (Inl e)
  then have "e = undefined_behaviour" by (auto simp: int_mult_def split: if_splits)
  with Inl show ?thesis
    by (simp add: restoreOPM_XWEL_def ecl_file_iget_named_kw_def kw bind_result_def Let_def)
next
  case (Inr wp)
  then have wp: "wp = W * P" by (auto simp: int_mult_def split: if_splits)
  have bad: "\<And>e. vector_of_range buf (0 + W + W + W * P) e = Inl undefined_behaviour"
    using len by (simp add: vector_of_range_def)
  show ?thesis
    unfolding restoreOPM_XWEL_def ecl_file_iget_named_kw_def kw bind_result_def Let_def
      Inr wp option.case sum.case bad
    by (simp split: sum.splits add: vector_of_range_def)
qed

lemma restoreOPM_XWEL_absent:
  "active_view file ''OPM_XWEL'' = None \<Longrightarrow> restoreOPM_XWEL file W P = Inl contract_violation"
  by (simp add: restoreOPM_XWEL_def ecl_file_iget_named_kw_def bind_result_def)

lemma check_has_kw_find:
  "check_has_kw file keys =
     (case find (\<lambda>k. \<not> ecl_file_has_kw file k) keys of
        None \<Rightarrow> Inr ()
      | Some k \<Rightarrow> Inl (runtime_error (''Read of restart file: File does not contain '' @ k @ '' data'')))"
  by (induction keys) simp_all

lemma take_drop_append: "take a xs @ take b (drop a xs) = take (a + b) xs"
  by (simp add: take_add)

lemma take_drop_append2: "take a xs @ take b (drop a xs) @ ys = take (a + b) xs @ ys"
  by (simp add: take_add)


lemma restoreSOLUTION_check_has_kw_fails:
  "check_has_kw file [''PRESSURE'', ''TEMP'', ''SWAT'', ''SGAS''] = Inl e
     \<Longrightarrow> restoreSOLUTION to_si file numcells tbl = Inl e"
  by (simp add: restoreSOLUTION_def bind_result_def)

lemma init_from_restart_file_positioned:
  assumes opened: "ecl_file_open (getRestartFileName es (getRestartRootName es)
                                    (getRestartStep es) False) = Some opened"
    and positioned: "(if getUNIFIN es
                      then ecl_file_select_rstblock_report_step opened (getRestartStep es)
                      else (True, opened)) = (True, file)"
  shows "init_from_restart_file to_si ecl_file_open es numcells =
           bind_result
             (restoreSOLUTION to_si file numcells
                (if getDeckUnitSystemType es = UNIT_TYPE_METRIC then metric2si else field2si))
             (\<lambda>sol. bind_result
                (restoreOPM_XWEL file (numWells es (getRestartStep es)) (getNumPhases es))
                (\<lambda>wells. Inr (sol, wells)))"
  unfolding init_from_restart_file_def Let_def opened option.case positioned
  by simp

lemma example_opened:
  "example_open f (getRestartFileName (example_state ty W P)
                     (getRestartRootName (example_state ty W P))
                     (getRestartStep (example_state ty W P)) False) = Some f"
  by (simp add: example_open_def example_state_def)

lemma example_positioned:
  "(if getUNIFIN (example_state ty W P)
    then ecl_file_select_rstblock_report_step (unified_file_of 1 kws)
           (getRestartStep (example_state ty W P))
    else (True, unified_file_of 1 kws))
   = (True, \<lparr>active_view = map_of kws, rst_blocks = [1 \<mapsto> map_of kws]\<rparr>)"
  by (simp add: example_state_def ecl_file_select_rstblock_report_step_def unified_file_of_def)

section \<open>The well-field extraction\<close>

text \<open>
  C2: for a well-state record of \<open>N\<close> elements with \<open>N \<ge> 2 * W + W * P\<close> (well count
  \<open>W \<ge> 0\<close>, phase count \<open>P \<ge> 0\<close>, \<open>N\<close> an \<^verbatim>\<open>int\<close>), the extraction returns the first
  \<open>W\<close> elements as bottom-hole pressure, the next \<open>W\<close> as temperature, the next
  \<open>W * P\<close> as surface rate, and of the remaining \<open>R = N - 2 * W - W * P\<close> elements the
  next \<open>R div 2\<close> as perforation pressure and the following \<open>R div 2\<close> as perforation
  rate; the five sequences together are the whole record when \<open>R\<close> is even and the
  record without its last element when \<open>R\<close> is odd.
\<close>

theorem restoreOPM_XWEL_slices:
  assumes kw: "active_view file ''OPM_XWEL'' = Some buf"
    and N: "int (length buf) = N" and sz: "N < 2 ^ 31"
    and W: "0 \<le> W" and P: "0 \<le> P"
    and R: "R = N - (2 * W + W * P)" and R0: "0 \<le> R"
  shows "\<exists>w. restoreOPM_XWEL file W P = Inr w
           \<and> bhp w = take (nat W) buf
           \<and> temperature w = take (nat W) (drop (nat W) buf)
           \<and> well_rate w = take (nat (W * P)) (drop (nat (2 * W)) buf)
           \<and> perf_pressure w = take (nat (R div 2)) (drop (nat (2 * W + W * P)) buf)
           \<and> perf_rate w = take (nat (R div 2)) (drop (nat (2 * W + W * P + R div 2)) buf)
           \<and> int (length (bhp w)) = W
           \<and> int (length (temperature w)) = W
           \<and> int (length (well_rate w)) = W * P
           \<and> int (length (perf_pressure w)) = R div 2
           \<and> int (length (perf_rate w)) = R div 2
           \<and> bhp w @ temperature w @ well_rate w @ perf_pressure w @ perf_rate w
               = (if even R then buf else butlast buf)"
proof -
  have wp: "0 \<le> W * P" using W P by simp
  have len: "2 * W + W * P \<le> int (length buf)" using R R0 N by simp
  have sz': "int (length buf) < 2 ^ 31" using sz N by simp
  note eq = restoreOPM_XWEL_success [OF kw W P len sz']
  have Rd: "(int (length buf) - (2 * W + W * P)) div 2 = R div 2" using R N by simp
  have k0: "0 \<le> R div 2" using R0 by simp
  have k2: "2 * (R div 2) \<le> R" by simp
  define a where "a = nat W"
  define c where "c = nat (W * P)"
  define k where "k = nat (R div 2)"
  have n1: "nat (2 * W) = a + a" using W by (simp add: a_def)
  have n2: "nat (2 * W + W * P) = a + a + c" using W wp by (simp add: a_def c_def nat_add_distrib)
  have n3: "nat (2 * W + W * P + R div 2) = a + a + c + k"
    using W wp k0 by (simp add: a_def c_def k_def nat_add_distrib)
  have tot: "a + a + c + k + k + (if even R then 0 else 1) = length buf"
  proof -
    have "R = 2 * (R div 2) + (if even R then 0 else 1)" by (simp add: odd_iff_mod_2_eq_one)
    then have "int (length buf) = W + W + W * P + R div 2 + R div 2 + (if even R then 0 else 1)"
      using R N by simp
    also have "\<dots> = int (a + a + c + k + k + (if even R then 0 else 1))"
      using W wp k0 by (simp add: a_def c_def k_def)
    finally show ?thesis by linarith
  qed
  have cat: "take a buf @ take a (drop a buf) @ take c (drop (a + a) buf)
               @ take k (drop (a + a + c) buf) @ take k (drop (a + a + c + k) buf)
             = take (a + a + c + k + k) buf"
    by (simp only: take_drop_append take_drop_append2)
  have le: "a + a + c + k + k \<le> length buf" using tot by (simp split: if_splits)
  have fin: "take (a + a + c + k + k) buf = (if even R then buf else butlast buf)"
  proof (cases "even R")
    case True
    with tot show ?thesis by simp
  next
    case False
    with tot have "length buf - 1 = a + a + c + k + k" by simp
    with False show ?thesis by (simp add: butlast_conv_take)
  qed
  have l1: "int (length (take a buf)) = W" using le W by (simp add: a_def)
  have l2: "int (length (take a (drop a buf))) = W" using le W by (simp add: a_def)
  have l3: "int (length (take c (drop (a + a) buf))) = W * P" using le wp by (simp add: c_def)
  have l4: "int (length (take k (drop (a + a + c) buf))) = R div 2"
    using le k0 by (simp add: k_def)
  have l5: "int (length (take k (drop (a + a + c + k) buf))) = R div 2"
    using le k0 by (simp add: k_def)
  show ?thesis
    unfolding eq Rd n1 n2 n3 a_def [symmetric] c_def [symmetric] k_def [symmetric]
    using cat fin l1 l2 l3 l4 l5 by (simp only: Wells.simps sum.inject simp_thms ex_simps)
qed

theorem restoreOPM_XWEL_slices_witness:
  "\<exists>w. restoreOPM_XWEL
          (file_of [(''OPM_XWEL'', [1, 2, 3, 4, 5, 6, 7, 8, 9, 10, 11, 12, 13, 14, 15])]) 2 3 = Inr w
       \<and> bhp w = [1, 2] \<and> temperature w = [3, 4] \<and> well_rate w = [5, 6, 7, 8, 9, 10]
       \<and> perf_pressure w = [11, 12] \<and> perf_rate w = [13, 14]"
proof -
  let ?buf = "[1, 2, 3, 4, 5, 6, 7, 8, 9, 10, 11, 12, 13, 14, 15] :: real list"
  let ?file = "file_of [(''OPM_XWEL'', ?buf)]"
  have kw: "active_view ?file ''OPM_XWEL'' = Some ?buf" by (simp add: file_of_def)
  have N: "int (length ?buf) = 15" by simp
  have sz: "(15::int) < 2 ^ 31" by simp
  have W: "(0::int) \<le> 2" and P: "(0::int) \<le> 3" by simp_all
  have R: "(5::int) = 15 - (2 * 2 + 2 * 3)" and R0: "(0::int) \<le> 5" by simp_all
  from restoreOPM_XWEL_slices [OF kw N sz W P R R0] obtain w where
    r: "restoreOPM_XWEL ?file 2 3 = Inr w"
    and b: "bhp w = take (nat 2) ?buf"
    and t: "temperature w = take (nat 2) (drop (nat 2) ?buf)"
    and s: "well_rate w = take (nat (2 * 3)) (drop (nat (2 * 2)) ?buf)"
    and pp: "perf_pressure w = take (nat (5 div 2)) (drop (nat (2 * 2 + 2 * 3)) ?buf)"
    and pr: "perf_rate w = take (nat (5 div 2)) (drop (nat (2 * 2 + 2 * 3 + 5 div 2)) ?buf)"
    by blast
  have "bhp w = [1, 2]" using b by simp
  moreover have "temperature w = [3, 4]" using t by simp
  moreover have "well_rate w = [5, 6, 7, 8, 9, 10]" using s by simp
  moreover have "perf_pressure w = [11, 12]" using pp by simp
  moreover have "perf_rate w = [13, 14]" using pr by simp
  ultimately show ?thesis using r by blast
qed

text \<open>
  C1: a well-state record with fewer than \<open>2 * W + W * P\<close> elements is to end the
  extraction with a size error, with nothing read past its end. The code has no such
  check: at a record of two elements with one well and one phase, the range of the surface
  rate ends one element past the record, and no error is thrown.
\<close>

theorem restoreOPM_XWEL_too_short:
  "restoreOPM_XWEL (file_of [(''OPM_XWEL'', [1, 2])]) 1 1 = Inl undefined_behaviour"
  by (simp add: restoreOPM_XWEL_def ecl_file_iget_named_kw_def ecl_kw_get_size_def
      bind_result_def int_mult_def vector_of_range_def file_of_def Let_def
      signed_divide_int_def)

text \<open>
  C10: the well-field extraction fetches the record OPM_XWEL without asking whether the
  file has it. On every file without that record, for every well and phase count, the
  call ends outside the record store's contract, never with an error thrown by this file
  (so with no message that names the record).
\<close>

theorem restoreOPM_XWEL_absent_record:
  assumes "\<not> ecl_file_has_kw file ''OPM_XWEL''"
  shows "restoreOPM_XWEL file num_wells num_phases = Inl contract_violation
       \<and> (\<forall>msg. restoreOPM_XWEL file num_wells num_phases \<noteq> Inl (runtime_error msg))"
proof -
  from assms have "active_view file ''OPM_XWEL'' = None"
    by (simp add: ecl_file_has_kw_def)
  then have "restoreOPM_XWEL file num_wells num_phases = Inl contract_violation"
    by (rule restoreOPM_XWEL_absent)
  then show ?thesis by simp
qed

theorem restoreOPM_XWEL_absent_record_witness:
  "\<not> ecl_file_has_kw (file_of example_cells) ''OPM_XWEL''
   \<and> restoreOPM_XWEL (file_of example_cells) 2 3 = Inl contract_violation"
proof -
  have a: "\<not> ecl_file_has_kw (file_of example_cells) ''OPM_XWEL''"
    by (simp add: ecl_file_has_kw_def file_of_def example_cells_def)
  from restoreOPM_XWEL_absent_record [OF a, of 2 3] a show ?thesis by blast
qed

section \<open>The cell-field extraction\<close>

text \<open>
  C3: in the Solution of a successful cell-field extraction, the PRESSURE sequence is the
  raw PRESSURE record with the converter applied at dimension pressure to each element,
  the TEMP sequence is the raw TEMP record with the converter applied at dimension
  temperature to each element, and the SWAT and SGAS sequences are the raw records
  themselves.
\<close>

theorem restoreSOLUTION_units:
  assumes "restoreSOLUTION to_si file numcells tbl = Inr sol"
  shows "\<exists>p t w g.
           active_view file ''PRESSURE'' = Some p \<and> active_view file ''TEMP'' = Some t
         \<and> active_view file ''SWAT'' = Some w \<and> active_view file ''SGAS'' = Some g
         \<and> sol PRESSURE = Some (map (to_si tbl dim_pressure) p)
         \<and> sol TEMP = Some (map (to_si tbl dim_temperature) t)
         \<and> sol SWAT = Some w
         \<and> sol SGAS = Some g"
  using assms unfolding restoreSOLUTION_unfold
  by (auto split: option.splits if_splits)

theorem restoreSOLUTION_units_witness:
  "\<exists>sol. restoreSOLUTION example_to_si
            (file_of [(''PRESSURE'', [1, 2]), (''TEMP'', [50, 60]),
                      (''SWAT'', [1 / 4, 1 / 2]), (''SGAS'', [1 / 8, 0])]) 2 field2si = Inr sol
         \<and> sol PRESSURE = Some [689476 / 100, 2 * 689476 / 100]
         \<and> sol TEMP = Some [(50 + 45967 / 100) * 5 / 9, (60 + 45967 / 100) * 5 / 9]
         \<and> sol SWAT = Some [1 / 4, 1 / 2]
         \<and> sol SGAS = Some [1 / 8, 0]"
proof -
  let ?file = "file_of [(''PRESSURE'', [1, 2]), (''TEMP'', [50, 60]),
                        (''SWAT'', [1 / 4, 1 / 2]), (''SGAS'', [1 / 8, 0])]"
  obtain sol where r: "restoreSOLUTION example_to_si ?file 2 field2si = Inr sol"
    by (simp add: restoreSOLUTION_unfold file_of_def)
  from restoreSOLUTION_units [OF r] obtain p t w g where
    "active_view ?file ''PRESSURE'' = Some p" "active_view ?file ''TEMP'' = Some t"
    "active_view ?file ''SWAT'' = Some w" "active_view ?file ''SGAS'' = Some g"
    and s: "sol PRESSURE = Some (map (example_to_si field2si dim_pressure) p)"
      "sol TEMP = Some (map (example_to_si field2si dim_temperature) t)"
      "sol SWAT = Some w" "sol SGAS = Some g"
    by blast
  then have "p = [1, 2]" "t = [50, 60]" "w = [1 / 4, 1 / 2]" "g = [1 / 8, 0]"
    by (simp_all add: file_of_def)
  with s have "sol PRESSURE = Some [689476 / 100, 2 * 689476 / 100]"
    "sol TEMP = Some [(50 + 45967 / 100) * 5 / 9, (60 + 45967 / 100) * 5 / 9]"
    "sol SWAT = Some [1 / 4, 1 / 2]" "sol SGAS = Some [1 / 8, 0]"
    by (simp_all add: example_to_si_def)
  with r show ?thesis by blast
qed

text \<open>
  C4: the Solution of a successful cell-field extraction for cell count \<open>C\<close> holds the
  four mandatory fields PRESSURE, TEMP, SWAT and SGAS, each a sequence of exactly \<open>C\<close>
  elements.
\<close>

theorem restoreSOLUTION_lengths:
  assumes "restoreSOLUTION to_si file C tbl = Inr sol"
  shows "\<exists>p t w g.
           sol PRESSURE = Some p \<and> sol TEMP = Some t \<and> sol SWAT = Some w \<and> sol SGAS = Some g
         \<and> int (length p) = C \<and> int (length t) = C
         \<and> int (length w) = C \<and> int (length g) = C"
  using assms unfolding restoreSOLUTION_unfold
  by (auto split: option.splits if_splits)

theorem restoreSOLUTION_lengths_witness:
  "\<exists>sol p t w g.
       restoreSOLUTION example_to_si
         (file_of [(''PRESSURE'', [1, 2, 3]), (''TEMP'', [50, 60, 70]),
                   (''SWAT'', [1 / 4, 1 / 2, 1]), (''SGAS'', [1 / 8, 0, 0])]) 3 metric2si = Inr sol
     \<and> sol PRESSURE = Some p \<and> sol TEMP = Some t \<and> sol SWAT = Some w \<and> sol SGAS = Some g
     \<and> int (length p) = 3 \<and> int (length t) = 3 \<and> int (length w) = 3 \<and> int (length g) = 3"
proof -
  let ?file = "file_of [(''PRESSURE'', [1, 2, 3]), (''TEMP'', [50, 60, 70]),
                        (''SWAT'', [1 / 4, 1 / 2, 1]), (''SGAS'', [1 / 8, 0, 0])]"
  obtain sol where r: "restoreSOLUTION example_to_si ?file 3 metric2si = Inr sol"
    by (simp add: restoreSOLUTION_unfold file_of_def)
  from restoreSOLUTION_lengths [OF r] r show ?thesis by blast
qed

text \<open>
  C5: when one of the four mandatory records PRESSURE, TEMP, SWAT, SGAS is absent from the
  file, the cell-field extraction returns no Solution: it ends with the error whose message
  names an absent record, namely the first absent one in that order.
\<close>

theorem restoreSOLUTION_missing:
  assumes key: "key \<in> set [''PRESSURE'', ''TEMP'', ''SWAT'', ''SGAS'']"
    and absent: "\<not> ecl_file_has_kw file key"
  shows "\<exists>k. find (\<lambda>k. \<not> ecl_file_has_kw file k) [''PRESSURE'', ''TEMP'', ''SWAT'', ''SGAS'']
                = Some k
           \<and> \<not> ecl_file_has_kw file k
           \<and> restoreSOLUTION to_si file numcells tbl
               = Inl (runtime_error (''Read of restart file: File does not contain ''
                                     @ k @ '' data''))"
proof -
  let ?keys = "[''PRESSURE'', ''TEMP'', ''SWAT'', ''SGAS'']"
  have "find (\<lambda>k. \<not> ecl_file_has_kw file k) ?keys \<noteq> None"
    using key absent unfolding find_None_iff by blast
  then obtain k where k: "find (\<lambda>k. \<not> ecl_file_has_kw file k) ?keys = Some k"
    by blast
  then have nk: "\<not> ecl_file_has_kw file k"
    unfolding find_Some_iff by blast
  have "check_has_kw file ?keys
          = Inl (runtime_error (''Read of restart file: File does not contain '' @ k @ '' data''))"
    unfolding check_has_kw_find k by simp
  then have "restoreSOLUTION to_si file numcells tbl
          = Inl (runtime_error (''Read of restart file: File does not contain '' @ k @ '' data''))"
    by (rule restoreSOLUTION_check_has_kw_fails)
  with k nk show ?thesis by blast
qed

theorem restoreSOLUTION_missing_witness:
  "restoreSOLUTION example_to_si
     (file_of [(''PRESSURE'', [1, 2]), (''TEMP'', [50, 60]), (''SWAT'', [1 / 4, 1 / 2])])
     2 field2si
   = Inl (runtime_error ''Read of restart file: File does not contain SGAS data'')"
proof -
  let ?file = "file_of [(''PRESSURE'', [1, 2]), (''TEMP'', [50, 60]), (''SWAT'', [1 / 4, 1 / 2])]"
  have key: "''SGAS'' \<in> set [''PRESSURE'', ''TEMP'', ''SWAT'', ''SGAS'']" by simp
  have absent: "\<not> ecl_file_has_kw ?file ''SGAS''"
    by (simp add: ecl_file_has_kw_def file_of_def)
  from restoreSOLUTION_missing [OF key absent, of example_to_si 2 field2si] obtain k where
    f: "find (\<lambda>k. \<not> ecl_file_has_kw ?file k) [''PRESSURE'', ''TEMP'', ''SWAT'', ''SGAS'']
          = Some k"
    and r: "restoreSOLUTION example_to_si ?file 2 field2si
          = Inl (runtime_error (''Read of restart file: File does not contain '' @ k @ '' data''))"
    by blast
  from f have "k = ''SGAS''" by (simp add: ecl_file_has_kw_def file_of_def)
  with r show ?thesis by simp
qed

text \<open>
  C6, as amended: when all four mandatory records are present and one of them has an
  element count that differs from the cell count, the cell-field extraction ends with the
  error whose message names the first such record in the order PRESSURE, TEMP, SWAT, SGAS;
  the message holds the name only, neither the expected nor the actual count.
\<close>

theorem restoreSOLUTION_mismatch:
  assumes "active_view file ''PRESSURE'' = Some p"
    and "active_view file ''TEMP'' = Some t"
    and "active_view file ''SWAT'' = Some w"
    and "active_view file ''SGAS'' = Some g"
    and "find (\<lambda>(nm, d). int (length d) \<noteq> numcells)
           [(''PRESSURE'', p), (''TEMP'', t), (''SWAT'', w), (''SGAS'', g)] = Some (nm, d)"
  shows "restoreSOLUTION to_si file numcells tbl
           = Inl (runtime_error (''Restart file: Could not restore '' @ nm
                                 @ '', mismatched number of cells''))"
  using assms unfolding restoreSOLUTION_unfold
  by (auto split: if_splits)

theorem restoreSOLUTION_mismatch_witness:
  "restoreSOLUTION example_to_si
     (file_of [(''PRESSURE'', [1, 2]), (''TEMP'', [50, 60, 70]),
               (''SWAT'', [1 / 4, 1 / 2]), (''SGAS'', [1 / 8])]) 2 field2si
   = Inl (runtime_error ''Restart file: Could not restore TEMP, mismatched number of cells'')"
proof -
  let ?file = "file_of [(''PRESSURE'', [1, 2]), (''TEMP'', [50, 60, 70]),
                        (''SWAT'', [1 / 4, 1 / 2]), (''SGAS'', [1 / 8])]"
  have p: "active_view ?file ''PRESSURE'' = Some [1, 2]"
    and t: "active_view ?file ''TEMP'' = Some [50, 60, 70]"
    and w: "active_view ?file ''SWAT'' = Some [1 / 4, 1 / 2]"
    and g: "active_view ?file ''SGAS'' = Some [1 / 8]"
    by (simp_all add: file_of_def)
  have f: "find (\<lambda>(nm, d). int (length d) \<noteq> 2)
             [(''PRESSURE'', [1, 2]), (''TEMP'', [50, 60, 70]),
              (''SWAT'', [1 / 4, 1 / 2]), (''SGAS'', [1 / 8 :: real])]
           = Some (''TEMP'', [50, 60, 70])"
    by simp
  from restoreSOLUTION_mismatch [OF p t w g f, of example_to_si field2si]
  show ?thesis by simp
qed

text \<open>
  C6, as stated, fails: a PRESSURE record of 99 elements against 100 cells and one of 98
  elements against 101 cells end with the very same error, so the error carries neither
  count; and when SGAS is absent besides, the error is the one of the missing record.
\<close>

theorem restoreSOLUTION_mismatch_counterexample:
  "restoreSOLUTION example_to_si
     (file_of [(''PRESSURE'', replicate 99 1), (''TEMP'', replicate 100 1),
               (''SWAT'', replicate 100 1), (''SGAS'', replicate 100 1)]) 100 field2si
   = Inl (runtime_error ''Restart file: Could not restore PRESSURE, mismatched number of cells'')
   \<and> restoreSOLUTION example_to_si
       (file_of [(''PRESSURE'', replicate 98 1), (''TEMP'', replicate 101 1),
                 (''SWAT'', replicate 101 1), (''SGAS'', replicate 101 1)]) 101 field2si
     = restoreSOLUTION example_to_si
         (file_of [(''PRESSURE'', replicate 99 1), (''TEMP'', replicate 100 1),
                   (''SWAT'', replicate 100 1), (''SGAS'', replicate 100 1)]) 100 field2si
   \<and> restoreSOLUTION example_to_si
       (file_of [(''PRESSURE'', replicate 99 1), (''TEMP'', replicate 100 1),
                 (''SWAT'', replicate 100 1)]) 100 field2si
     = Inl (runtime_error ''Read of restart file: File does not contain SGAS data'')"
  by (simp add: restoreSOLUTION_unfold file_of_def)

text \<open>
  C7: the Solution of a successful cell-field extraction holds the RS field exactly when
  the file has the RS record, and the field is the raw record; likewise for RV. Neither
  record is checked against the cell count: with the RS and RV records replaced by any
  others, of any length or absent, the extraction still succeeds and returns them as they
  are.
\<close>

theorem restoreSOLUTION_optional:
  assumes "restoreSOLUTION to_si file numcells tbl = Inr sol"
  shows "sol RS = active_view file ''RS'' \<and> sol RV = active_view file ''RV''
       \<and> (sol RS \<noteq> None \<longleftrightarrow> ecl_file_has_kw file ''RS'')
       \<and> (sol RV \<noteq> None \<longleftrightarrow> ecl_file_has_kw file ''RV'')
       \<and> (\<exists>sol'. restoreSOLUTION to_si
                   (file\<lparr>active_view := (active_view file)(''RS'' := rs, ''RV'' := rv)\<rparr>)
                   numcells tbl = Inr sol'
                \<and> sol' RS = rs \<and> sol' RV = rv)"
  using assms unfolding restoreSOLUTION_unfold ecl_file_has_kw_def
  by (auto split: option.splits if_splits)

theorem restoreSOLUTION_optional_witness:
  "\<exists>sol. restoreSOLUTION example_to_si
            (file_of [(''PRESSURE'', [1, 2]), (''TEMP'', [50, 60]), (''SWAT'', [1 / 4, 1 / 2]),
                      (''SGAS'', [1 / 8, 0]), (''RS'', [7, 8, 9])]) 2 field2si = Inr sol
         \<and> sol RS = Some [7, 8, 9] \<and> sol RV = None"
proof -
  let ?file = "file_of [(''PRESSURE'', [1, 2]), (''TEMP'', [50, 60]), (''SWAT'', [1 / 4, 1 / 2]),
                        (''SGAS'', [1 / 8, 0]), (''RS'', [7, 8, 9])]"
  obtain sol where r: "restoreSOLUTION example_to_si ?file 2 field2si = Inr sol"
    by (simp add: restoreSOLUTION_unfold file_of_def)
  from restoreSOLUTION_optional [OF r]
  have "sol RS = active_view ?file ''RS''" and "sol RV = active_view ?file ''RV''"
    by blast+
  then have "sol RS = Some [7, 8, 9]" and "sol RV = None"
    by (simp_all add: file_of_def)
  with r show ?thesis by blast
qed

section \<open>The entry point\<close>

text \<open>
  C8: on an opened file positioned at the report step, the entry point ends with the error
  of the cell-field extraction when that fails, with the error of the well-field extraction
  when the cell-field extraction succeeds and that fails, in both cases unchanged; it
  returns a pair exactly when both extractions return, and the pair is their two results.
\<close>

theorem init_from_restart_file_propagates:
  assumes opened: "ecl_file_open (getRestartFileName es (getRestartRootName es)
                                    (getRestartStep es) False) = Some opened"
    and positioned: "(if getUNIFIN es
                      then ecl_file_select_rstblock_report_step opened (getRestartStep es)
                      else (True, opened)) = (True, file)"
    and tbl: "tbl = (if getDeckUnitSystemType es = UNIT_TYPE_METRIC then metric2si
                     else field2si)"
    and W: "W = numWells es (getRestartStep es)" and P: "P = getNumPhases es"
  shows "(restoreSOLUTION to_si file numcells tbl = Inl e
            \<longrightarrow> init_from_restart_file to_si ecl_file_open es numcells = Inl e)
       \<and> (restoreSOLUTION to_si file numcells tbl = Inr sol \<and> restoreOPM_XWEL file W P = Inl e
            \<longrightarrow> init_from_restart_file to_si ecl_file_open es numcells = Inl e)
       \<and> (init_from_restart_file to_si ecl_file_open es numcells = Inr (sol, w)
            \<longleftrightarrow> restoreSOLUTION to_si file numcells tbl = Inr sol
                \<and> restoreOPM_XWEL file W P = Inr w)"
proof -
  have eq: "init_from_restart_file to_si ecl_file_open es numcells =
              bind_result (restoreSOLUTION to_si file numcells tbl)
                (\<lambda>sol. bind_result (restoreOPM_XWEL file W P) (\<lambda>wells. Inr (sol, wells)))"
    unfolding tbl W P using opened positioned by (rule init_from_restart_file_positioned)
  show ?thesis
    unfolding eq by (auto simp: bind_result_def split: sum.splits)
qed

theorem init_from_restart_file_propagates_witness:
  "init_from_restart_file example_to_si
     (example_open (unified_file_of 1
        [(''PRESSURE'', [1, 2]), (''TEMP'', [50, 60]), (''SWAT'', [1 / 4, 1 / 2])]))
     (example_state UNIT_TYPE_FIELD 1 1) 2
   = Inl (runtime_error ''Read of restart file: File does not contain SGAS data'')
   \<and> init_from_restart_file example_to_si
       (example_open (unified_file_of 1 (example_cells @ [(''OPM_XWEL'', [1, 2])])))
       (example_state UNIT_TYPE_FIELD 1 1) 2
     = Inl undefined_behaviour
   \<and> (\<exists>sol w. init_from_restart_file example_to_si
         (example_open (unified_file_of 1 (example_cells @ [(''OPM_XWEL'', [1, 2, 3])])))
         (example_state UNIT_TYPE_FIELD 1 1) 2
       = Inr (sol, w))"
proof (intro conjI)
  let ?es = "example_state UNIT_TYPE_FIELD 1 1"
  have tbl: "field2si = (if getDeckUnitSystemType ?es = UNIT_TYPE_METRIC then metric2si
                         else field2si)"
    and W: "1 = numWells ?es (getRestartStep ?es)" and P: "1 = getNumPhases ?es"
    by (simp_all add: example_state_def)
  have inst:
    "(restoreSOLUTION example_to_si
        \<lparr>active_view = map_of kws, rst_blocks = [1 \<mapsto> map_of kws]\<rparr> 2 field2si = Inl e
       \<longrightarrow> init_from_restart_file example_to_si (example_open (unified_file_of 1 kws)) ?es 2
           = Inl e)
     \<and> (restoreSOLUTION example_to_si
          \<lparr>active_view = map_of kws, rst_blocks = [1 \<mapsto> map_of kws]\<rparr> 2 field2si = Inr sol
        \<and> restoreOPM_XWEL \<lparr>active_view = map_of kws, rst_blocks = [1 \<mapsto> map_of kws]\<rparr> 1 1
            = Inl e
       \<longrightarrow> init_from_restart_file example_to_si (example_open (unified_file_of 1 kws)) ?es 2
           = Inl e)
     \<and> (init_from_restart_file example_to_si (example_open (unified_file_of 1 kws)) ?es 2
          = Inr (sol, w)
       \<longleftrightarrow> restoreSOLUTION example_to_si
             \<lparr>active_view = map_of kws, rst_blocks = [1 \<mapsto> map_of kws]\<rparr> 2 field2si = Inr sol
         \<and> restoreOPM_XWEL \<lparr>active_view = map_of kws, rst_blocks = [1 \<mapsto> map_of kws]\<rparr> 1 1
             = Inr w)"
    for kws e sol w
    by (rule init_from_restart_file_propagates [where opened = "unified_file_of 1 kws"])
      (rule example_opened example_positioned tbl W P)+
  {
    let ?kws = "[(''PRESSURE'', [1, 2]), (''TEMP'', [50, 60]), (''SWAT'', [1 / 4, 1 / 2])]
                  :: (string \<times> real list) list"
    let ?file = "\<lparr>active_view = map_of ?kws, rst_blocks = [1 \<mapsto> map_of ?kws]\<rparr>"
    have c: "restoreSOLUTION example_to_si ?file 2 field2si
               = Inl (runtime_error ''Read of restart file: File does not contain SGAS data'')"
      by (simp add: restoreSOLUTION_unfold)
    with inst [of ?kws]
    show "init_from_restart_file example_to_si (example_open (unified_file_of 1 ?kws)) ?es 2
            = Inl (runtime_error ''Read of restart file: File does not contain SGAS data'')"
      by blast
  }
  {
    let ?kws = "example_cells @ [(''OPM_XWEL'', [1, 2])]"
    let ?file = "\<lparr>active_view = map_of ?kws, rst_blocks = [1 \<mapsto> map_of ?kws]\<rparr>"
    obtain sol where c: "restoreSOLUTION example_to_si ?file 2 field2si = Inr sol"
      by (simp add: restoreSOLUTION_unfold example_cells_def)
    have kw: "active_view ?file ''OPM_XWEL'' = Some [1, 2]"
      by (simp add: example_cells_def)
    have x: "restoreOPM_XWEL ?file 1 1 = Inl undefined_behaviour"
      using kw by (rule restoreOPM_XWEL_short) simp_all
    from inst [of ?kws _ sol] c x
    show "init_from_restart_file example_to_si (example_open (unified_file_of 1 ?kws)) ?es 2
            = Inl undefined_behaviour"
      by blast
  }
  {
    let ?kws = "example_cells @ [(''OPM_XWEL'', [1, 2, 3])]"
    let ?file = "\<lparr>active_view = map_of ?kws, rst_blocks = [1 \<mapsto> map_of ?kws]\<rparr>"
    obtain sol where c: "restoreSOLUTION example_to_si ?file 2 field2si = Inr sol"
      by (simp add: restoreSOLUTION_unfold example_cells_def)
    have kw: "active_view ?file ''OPM_XWEL'' = Some [1, 2, 3]"
      by (simp add: example_cells_def)
    obtain w where x: "restoreOPM_XWEL ?file 1 1 = Inr w"
      using restoreOPM_XWEL_success [OF kw, of 1 1] by simp
    from inst [of ?kws _ sol w] c x
    show "\<exists>sol w. init_from_restart_file example_to_si
            (example_open (unified_file_of 1 ?kws)) ?es 2 = Inr (sol, w)"
      by blast
  }
qed

text \<open>
  C9: for a deck whose unit system is not METRIC, the entry point, on the file it has
  opened and positioned at the report step, is the cell-field extraction of that file with
  the FIELD table followed by the well-field extraction: the choice of the conversion table
  has two branches only, so any other member of the enumeration (LAB) is neither rejected
  nor given a table of its own. The PRESSURE and TEMP sequences of a returned Solution are
  that file's records converted with the FIELD table.
\<close>

theorem init_from_restart_file_not_metric:
  assumes ty: "getDeckUnitSystemType es \<noteq> UNIT_TYPE_METRIC"
    and opened: "ecl_file_open (getRestartFileName es (getRestartRootName es)
                                    (getRestartStep es) False) = Some opened"
    and positioned: "(if getUNIFIN es
                      then ecl_file_select_rstblock_report_step opened (getRestartStep es)
                      else (True, opened)) = (True, file)"
  shows "init_from_restart_file to_si ecl_file_open es numcells
           = bind_result (restoreSOLUTION to_si file numcells field2si)
               (\<lambda>sol. bind_result
                  (restoreOPM_XWEL file (numWells es (getRestartStep es)) (getNumPhases es))
                  (\<lambda>wells. Inr (sol, wells)))
       \<and> (init_from_restart_file to_si ecl_file_open es numcells = Inr (sol, w)
            \<longrightarrow> restoreSOLUTION to_si file numcells field2si = Inr sol
              \<and> (\<exists>p t. active_view file ''PRESSURE'' = Some p
                     \<and> active_view file ''TEMP'' = Some t
                     \<and> sol PRESSURE = Some (map (to_si field2si dim_pressure) p)
                     \<and> sol TEMP = Some (map (to_si field2si dim_temperature) t)))"
proof -
  have "init_from_restart_file to_si ecl_file_open es numcells =
          bind_result
            (restoreSOLUTION to_si file numcells
               (if getDeckUnitSystemType es = UNIT_TYPE_METRIC then metric2si else field2si))
            (\<lambda>sol. bind_result
               (restoreOPM_XWEL file (numWells es (getRestartStep es)) (getNumPhases es))
               (\<lambda>wells. Inr (sol, wells)))"
    using opened positioned by (rule init_from_restart_file_positioned)
  with ty have eq: "init_from_restart_file to_si ecl_file_open es numcells
           = bind_result (restoreSOLUTION to_si file numcells field2si)
               (\<lambda>sol. bind_result
                  (restoreOPM_XWEL file (numWells es (getRestartStep es)) (getNumPhases es))
                  (\<lambda>wells. Inr (sol, wells)))"
    by simp
  have fields: "\<exists>p t. active_view file ''PRESSURE'' = Some p
                     \<and> active_view file ''TEMP'' = Some t
                     \<and> sol PRESSURE = Some (map (to_si field2si dim_pressure) p)
                     \<and> sol TEMP = Some (map (to_si field2si dim_temperature) t)"
    if "restoreSOLUTION to_si file numcells field2si = Inr sol"
    using that unfolding restoreSOLUTION_unfold
    by (auto split: option.splits if_splits)
  have "restoreSOLUTION to_si file numcells field2si = Inr sol"
    if "init_from_restart_file to_si ecl_file_open es numcells = Inr (sol, w)"
    using that unfolding eq by (auto simp: bind_result_def split: sum.splits)
  with fields eq show ?thesis by blast
qed

theorem init_from_restart_file_not_metric_witness:
  "\<exists>sol w.
     init_from_restart_file example_to_si
       (example_open (unified_file_of 1 (example_cells @ [(''OPM_XWEL'', [1, 2, 3])])))
       (example_state UNIT_TYPE_LAB 1 1) 2 = Inr (sol, w)
     \<and> sol PRESSURE = Some [689476 / 100, 2 * 689476 / 100]
     \<and> sol TEMP = Some [(50 + 45967 / 100) * 5 / 9, (60 + 45967 / 100) * 5 / 9]"
proof -
  let ?es = "example_state UNIT_TYPE_LAB 1 1"
  let ?kws = "example_cells @ [(''OPM_XWEL'', [1, 2, 3])]"
  let ?file = "\<lparr>active_view = map_of ?kws, rst_blocks = [1 \<mapsto> map_of ?kws]\<rparr>"
  let ?open = "example_open (unified_file_of 1 ?kws)"
  have ty: "getDeckUnitSystemType ?es \<noteq> UNIT_TYPE_METRIC"
    by (simp add: example_state_def)
  have opened: "?open (getRestartFileName ?es (getRestartRootName ?es) (getRestartStep ?es) False)
                  = Some (unified_file_of 1 ?kws)"
    by (rule example_opened)
  have positioned: "(if getUNIFIN ?es
                     then ecl_file_select_rstblock_report_step (unified_file_of 1 ?kws)
                            (getRestartStep ?es)
                     else (True, unified_file_of 1 ?kws)) = (True, ?file)"
    by (rule example_positioned)
  obtain sol where c: "restoreSOLUTION example_to_si ?file 2 field2si = Inr sol"
    by (simp add: restoreSOLUTION_unfold example_cells_def)
  have kw: "active_view ?file ''OPM_XWEL'' = Some [1, 2, 3]"
    by (simp add: example_cells_def)
  obtain w where x: "restoreOPM_XWEL ?file 1 1 = Inr w"
    using restoreOPM_XWEL_success [OF kw, of 1 1] by simp
  have nm: "numWells ?es (getRestartStep ?es) = 1" "getNumPhases ?es = 1"
    by (simp_all add: example_state_def)
  note inst = init_from_restart_file_not_metric [of ?es ?open "unified_file_of 1 ?kws" ?file
      example_to_si 2 sol w, OF ty opened positioned]
  from inst have "init_from_restart_file example_to_si ?open ?es 2
           = bind_result (restoreSOLUTION example_to_si ?file 2 field2si)
               (\<lambda>sol. bind_result
                  (restoreOPM_XWEL ?file (numWells ?es (getRestartStep ?es)) (getNumPhases ?es))
                  (\<lambda>wells. Inr (sol, wells)))"
    by blast
  then have r: "init_from_restart_file example_to_si ?open ?es 2 = Inr (sol, w)"
    unfolding nm c x by (simp add: bind_result_def)
  with inst obtain p t where
    "active_view ?file ''PRESSURE'' = Some p" "active_view ?file ''TEMP'' = Some t"
    and s: "sol PRESSURE = Some (map (example_to_si field2si dim_pressure) p)"
      "sol TEMP = Some (map (example_to_si field2si dim_temperature) t)"
    by blast
  then have "p = [1, 2]" "t = [50, 60]"
    by (simp_all add: example_cells_def)
  with s have "sol PRESSURE = Some [689476 / 100, 2 * 689476 / 100]"
    "sol TEMP = Some [(50 + 45967 / 100) * 5 / 9, (60 + 45967 / 100) * 5 / 9]"
    by (simp_all add: example_to_si_def)
  with r show ?thesis by blast
qed

end
